theory Spec2Isabelle
  imports Main "HOL-Library.Monad_Syntax" "HOL-Library.Word"
begin

section \<open>Go values\<close>

text \<open>
  Go types are rendered as follows. A struct is a record with the fields of the source,
  under the source's names. A Go \<open>string\<close> is a \<open>string\<close>; its zero value is the empty
  string, which is also what the \<open>omitempty\<close> tags of the source treat as an absent
  field. A pointer \<open>*T\<close> that is only read is a \<open>T ptr\<close>, \<open>None\<close> being \<open>nil\<close>. A slice
  \<open>[]T\<close> is a \<open>T slice\<close>, \<open>None\<close> being the \<open>nil\<close> slice and \<open>Some []\<close> an empty one
  that is not \<open>nil\<close>. Go's \<open>int\<close> is taken to be 64 bits wide and is read as a signed
  number with \<open>sint\<close>.
\<close>

type_synonym 'a ptr = "'a option"
type_synonym 'a slice = "'a list option"
type_synonym go_int = "64 word"

section \<open>JSON values\<close>

text \<open>
  The wire format is JSON. The model works on JSON values: an object is the list of its
  members in the order they are written, a number is an integer (every numeric field of
  the source is an \<open>int\<close>), and a string is the sequence of the bytes of its UTF-8
  form. How a string is escaped in the JSON text is below this level; which bytes the
  encoder writes for a Go string is not, and is modelled by \<open>encode_string\<close>.
\<close>

datatype json =
  JNull
| JBool bool
| JNumber int
| JString string
| JArray "json list"
| JObject "(string \<times> json) list"

section \<open>The Send API data model (models.go, lines 87 to 167)\<close>

record Recipient =
  Id :: string
  PhoneNumber :: string

record Button =
  Type :: string
  Title :: string
  Url :: string
  Payload :: string

record MediaPayload =
  Url :: string

record ButtonPayload =
  TemplateType :: string
  Text :: string
  Buttons :: "Button ptr slice"

text \<open>
  \<open>Attachment.Payload\<close> has the type \<open>interface{}\<close>. The dynamic values this package
  stores in it are a \<open>MediaPayload\<close> (by \<open>ImageMessage\<close>) and a \<open>ButtonPayload\<close> (by
  \<open>ButtonTemplateMessage\<close>), and the zero value of the field is the nil interface. A
  caller of the package may store any other Go value: such a value is represented by
  what the JSON encoder makes of it, either a JSON value (\<open>EncodableValue\<close>) or the
  refusal of a type that has no JSON encoding, such as a channel or a function
  (\<open>UnsupportedValue\<close>).
\<close>

datatype payload =
  NilPayload
| MediaPayloadValue MediaPayload
| ButtonPayloadValue ButtonPayload
| EncodableValue json
| UnsupportedValue

record Attachment =
  Type :: string
  Payload :: payload

record Message =
  Text :: string
  Attachment :: "Attachment ptr"

record SendRequest =
  Recipient :: Recipient
  Message :: Message
  NotificationType :: string

record SendError =
  Message :: string
  Type :: string
  Code :: go_int
  ErrorData :: string
  FBTraceId :: string

record SendResponse =
  RecipientId :: string
  MessageId :: string
  Error :: "SendError ptr"

section \<open>The webhook data model (models.go, lines 179 to 262)\<close>

record Principal =
  Id :: string

record CallbackAttachmentPayload =
  Url :: string

record CallbackAttachment =
  Type :: string
  Payload :: CallbackAttachmentPayload

record CallbackMessage =
  MessageId :: string
  Sequence :: go_int
  Text :: string
  Attachments :: "CallbackAttachment ptr slice"

record Delivery =
  MessageIds :: "string slice"
  Watermark :: go_int
  Sequence :: go_int

record Postback =
  Payload :: string

record OptIn =
  Ref :: string

record MessagingEntry =
  Sender :: Principal
  Recipient :: Principal
  Timestamp :: go_int
  Message :: "CallbackMessage ptr"
  Delivery :: "Delivery ptr"
  Postback :: "Postback ptr"
  OptIn :: "OptIn ptr"

record Entry =
  PageId :: string
  Time :: go_int
  Messaging :: "MessagingEntry ptr slice"

record Callback =
  Object :: string
  Entries :: "Entry ptr slice"

section \<open>Requests on the heap\<close>

text \<open>
  The constructors return a pointer to a new \<open>SendRequest\<close>, and the fluent methods
  assign to a field through their receiver and return the receiver. The requests
  therefore live in a store: an address is an index into the list of the requests
  allocated so far. An address that holds no request stands for \<open>nil\<close>; a method called
  on it panics with a nil dereference, which is the result \<open>None\<close>.
\<close>

type_synonym addr = nat
type_synonym store = "SendRequest list"

definition deref :: "store \<Rightarrow> addr \<Rightarrow> SendRequest option" where
  "deref s p = (if p < length s then Some (s ! p) else None)"

definition new :: "SendRequest \<Rightarrow> store \<Rightarrow> addr \<times> store" where
  "new r s = (length s, s @ [r])"

definition assign :: "addr \<Rightarrow> (SendRequest \<Rightarrow> SendRequest) \<Rightarrow> store \<Rightarrow> (addr \<times> store) option" where
  "assign sr f s = (case deref s sr of None \<Rightarrow> None | Some r \<Rightarrow> Some (sr, s[sr := f r]))"

subsection \<open>Constructors (lines 8 to 46)\<close>

definition TextMessage :: "string \<Rightarrow> store \<Rightarrow> addr \<times> store" where
  "TextMessage text =
     new \<lparr>SendRequest.Recipient = \<lparr>Recipient.Id = '''', Recipient.PhoneNumber = ''''\<rparr>,
          SendRequest.Message = \<lparr>Message.Text = text, Message.Attachment = None\<rparr>,
          SendRequest.NotificationType = ''''\<rparr>"

definition ImageMessage :: "string \<Rightarrow> store \<Rightarrow> addr \<times> store" where
  "ImageMessage url =
     new \<lparr>SendRequest.Recipient = \<lparr>Recipient.Id = '''', Recipient.PhoneNumber = ''''\<rparr>,
          SendRequest.Message =
            \<lparr>Message.Text = '''',
             Message.Attachment =
               Some \<lparr>Attachment.Type = ''image'',
                     Attachment.Payload = MediaPayloadValue \<lparr>MediaPayload.Url = url\<rparr>\<rparr>\<rparr>,
          SendRequest.NotificationType = ''''\<rparr>"

definition ButtonTemplateMessage :: "string \<Rightarrow> Button ptr slice \<Rightarrow> store \<Rightarrow> addr \<times> store" where
  "ButtonTemplateMessage text buttons =
     new \<lparr>SendRequest.Recipient = \<lparr>Recipient.Id = '''', Recipient.PhoneNumber = ''''\<rparr>,
          SendRequest.Message =
            \<lparr>Message.Text = '''',
             Message.Attachment =
               Some \<lparr>Attachment.Type = ''template'',
                     Attachment.Payload =
                       ButtonPayloadValue
                         \<lparr>ButtonPayload.TemplateType = ''button'',
                          ButtonPayload.Text = text,
                          ButtonPayload.Buttons = buttons\<rparr>\<rparr>\<rparr>,
          SendRequest.NotificationType = ''''\<rparr>"

subsection \<open>Fluent methods (lines 50 to 85)\<close>

definition To :: "addr \<Rightarrow> string \<Rightarrow> store \<Rightarrow> (addr \<times> store) option" where
  "To sr userId =
     assign sr (\<lambda>r. r\<lparr>SendRequest.Recipient :=
                        \<lparr>Recipient.Id = userId, Recipient.PhoneNumber = ''''\<rparr>\<rparr>)"

definition ToPhoneNumber :: "addr \<Rightarrow> string \<Rightarrow> store \<Rightarrow> (addr \<times> store) option" where
  "ToPhoneNumber sr phoneNumber =
     assign sr (\<lambda>r. r\<lparr>SendRequest.Recipient :=
                        \<lparr>Recipient.Id = '''', Recipient.PhoneNumber = phoneNumber\<rparr>\<rparr>)"

definition Regular :: "addr \<Rightarrow> store \<Rightarrow> (addr \<times> store) option" where
  "Regular sr = assign sr (\<lambda>r. r\<lparr>SendRequest.NotificationType := ''REGULAR''\<rparr>)"

definition SilentPush :: "addr \<Rightarrow> store \<Rightarrow> (addr \<times> store) option" where
  "SilentPush sr = assign sr (\<lambda>r. r\<lparr>SendRequest.NotificationType := ''SILENT_PUSH''\<rparr>)"

definition NoPush :: "addr \<Rightarrow> store \<Rightarrow> (addr \<times> store) option" where
  "NoPush sr = assign sr (\<lambda>r. r\<lparr>SendRequest.NotificationType := ''NO_PUSH''\<rparr>)"

subsection \<open>Which recipient identifiers a request carries\<close>

text \<open>
  Both identifiers of a \<open>Recipient\<close> are strings tagged \<open>omitempty\<close> (lines 100 and
  101): an identifier is set when it is not the empty string.
\<close>

definition identifiers_set :: "Recipient \<Rightarrow> nat" where
  "identifiers_set r =
     (if Recipient.Id r = '''' then 0 else 1) + (if Recipient.PhoneNumber r = '''' then 0 else 1)"

section \<open>The wire encoding declared by the struct tags\<close>

text \<open>
  The source holds no encoder of its own: every struct declares its wire form with
  \<open>json\<close> tags, which the encoder and decoder of Go's standard library follow. The
  functions below render those rules for the structs of the source, field by field
  and in the order of declaration:
  \<^item> a field is written as the member named by its tag;
  \<^item> a string is written with every byte that is not part of a well-formed UTF-8
    sequence replaced by U+FFFD;
  \<^item> a field tagged \<open>omitempty\<close> is left out when it is empty (the empty string, a
    \<open>nil\<close> pointer);
  \<^item> a \<open>nil\<close> pointer, a \<open>nil\<close> slice and a nil interface are written as \<open>null\<close>, a
    slice as an array, a struct as an object;
  \<^item> encoding fails only on a value of a type that has no JSON encoding.
  The \<open>binding\<close> tags are no part of these rules: they are read by a validator that
  nothing in the source calls.
\<close>

subsection \<open>Strings\<close>

text \<open>
  A Go string is a sequence of bytes, and nothing in the source keeps it well-formed
  UTF-8. The encoder writes a string as JSON text: it walks the bytes, copies every
  well-formed UTF-8 sequence, and replaces each byte that starts none by the
  replacement character U+FFFD (the three bytes \<open>EF BF BD\<close>).

  \<open>rune_size\<close> is the size that the library's rune decoder finds for the sequence at
  the head of a string, \<open>0\<close> standing for its answer that the first byte starts no
  well-formed sequence: a lead byte \<open>C2\<close> to \<open>DF\<close> takes one continuation byte, \<open>E0\<close> to
  \<open>EF\<close> two and \<open>F0\<close> to \<open>F4\<close> three; continuation bytes lie in \<open>80\<close> to \<open>BF\<close>, and the
  first of them in a narrower range after \<open>E0\<close>, \<open>ED\<close>, \<open>F0\<close> and \<open>F4\<close>, which excludes
  overlong forms, surrogates and values beyond U+10FFFF.
\<close>

definition in_range :: "nat \<Rightarrow> nat \<Rightarrow> char \<Rightarrow> bool" where
  "in_range lo hi c = (lo \<le> of_char c \<and> (of_char c :: nat) \<le> hi)"

fun rune_size :: "string \<Rightarrow> nat" where
  "rune_size [] = 0"
| "rune_size (c # cs) =
     (let b = of_char c :: nat in
      if b < 0x80 then 1
      else if b < 0xC2 then 0
      else if b < 0xE0 then
        (case cs of
           c1 # _ \<Rightarrow> if in_range 0x80 0xBF c1 then 2 else 0
         | _ \<Rightarrow> 0)
      else if b < 0xF0 then
        (case cs of
           c1 # c2 # _ \<Rightarrow>
             if in_range (if b = 0xE0 then 0xA0 else 0x80) (if b = 0xED then 0x9F else 0xBF) c1
                \<and> in_range 0x80 0xBF c2
             then 3 else 0
         | _ \<Rightarrow> 0)
      else if b < 0xF5 then
        (case cs of
           c1 # c2 # c3 # _ \<Rightarrow>
             if in_range (if b = 0xF0 then 0x90 else 0x80) (if b = 0xF4 then 0x8F else 0xBF) c1
                \<and> in_range 0x80 0xBF c2 \<and> in_range 0x80 0xBF c3
             then 4 else 0
         | _ \<Rightarrow> 0)
      else 0)"

definition replacement_character :: string where
  "replacement_character = [CHR 0xEF, CHR 0xBF, CHR 0xBD]"

function ToValidUTF8 :: "string \<Rightarrow> string" where
  "ToValidUTF8 [] = []"
| "ToValidUTF8 (c # cs) =
     (if rune_size (c # cs) = 0 then replacement_character @ ToValidUTF8 cs
      else take (rune_size (c # cs)) (c # cs) @
           ToValidUTF8 (drop (rune_size (c # cs)) (c # cs)))"
  by pat_completeness auto
termination
  by (relation "measure length") auto

function ValidString :: "string \<Rightarrow> bool" where
  "ValidString [] = True"
| "ValidString (c # cs) =
     (if rune_size (c # cs) = 0 then False
      else ValidString (drop (rune_size (c # cs)) (c # cs)))"
  by pat_completeness auto
termination
  by (relation "measure length") auto

definition encode_string :: "string \<Rightarrow> json" where
  "encode_string s = JString (ToValidUTF8 s)"

subsection \<open>Encoding\<close>

definition omitempty_string :: "string \<Rightarrow> string \<Rightarrow> (string \<times> json) list" where
  "omitempty_string name v = (if v = '''' then [] else [(name, encode_string v)])"

definition encode_int :: "go_int \<Rightarrow> json" where
  "encode_int n = JNumber (sint n)"

definition encode_ptr :: "('a \<Rightarrow> json) \<Rightarrow> 'a ptr \<Rightarrow> json" where
  "encode_ptr enc p = (case p of None \<Rightarrow> JNull | Some x \<Rightarrow> enc x)"

definition encode_slice :: "('a \<Rightarrow> json) \<Rightarrow> 'a slice \<Rightarrow> json" where
  "encode_slice enc xs = (case xs of None \<Rightarrow> JNull | Some l \<Rightarrow> JArray (map enc l))"

definition encode_Recipient :: "Recipient \<Rightarrow> json" where
  "encode_Recipient r =
     JObject (omitempty_string ''id'' (Recipient.Id r) @
              omitempty_string ''phone_number'' (Recipient.PhoneNumber r))"

definition encode_Button :: "Button \<Rightarrow> json" where
  "encode_Button b =
     JObject ([(''type'', encode_string (Button.Type b)),
               (''title'', encode_string (Button.Title b))] @
              omitempty_string ''url'' (Button.Url b) @
              omitempty_string ''payload'' (Button.Payload b))"

definition encode_MediaPayload :: "MediaPayload \<Rightarrow> json" where
  "encode_MediaPayload p = JObject [(''url'', encode_string (MediaPayload.Url p))]"

definition encode_ButtonPayload :: "ButtonPayload \<Rightarrow> json" where
  "encode_ButtonPayload p =
     JObject [(''template_type'', encode_string (ButtonPayload.TemplateType p)),
              (''text'', encode_string (ButtonPayload.Text p)),
              (''buttons'', encode_slice (encode_ptr encode_Button) (ButtonPayload.Buttons p))]"

fun encode_payload :: "payload \<Rightarrow> json option" where
  "encode_payload NilPayload = Some JNull"
| "encode_payload (MediaPayloadValue p) = Some (encode_MediaPayload p)"
| "encode_payload (ButtonPayloadValue p) = Some (encode_ButtonPayload p)"
| "encode_payload (EncodableValue j) = Some j"
| "encode_payload UnsupportedValue = None"

definition encode_Attachment :: "Attachment \<Rightarrow> json option" where
  "encode_Attachment a =
     do { p \<leftarrow> encode_payload (Attachment.Payload a);
          Some (JObject [(''type'', encode_string (Attachment.Type a)), (''payload'', p)]) }"

definition encode_Message :: "Message \<Rightarrow> json option" where
  "encode_Message m =
     (case Message.Attachment m of
        None \<Rightarrow> Some (JObject (omitempty_string ''text'' (Message.Text m)))
      | Some a \<Rightarrow>
          do { j \<leftarrow> encode_Attachment a;
               Some (JObject (omitempty_string ''text'' (Message.Text m) @
                              [(''attachment'', j)])) })"

definition Marshal_SendRequest :: "SendRequest \<Rightarrow> json option" where
  "Marshal_SendRequest r =
     do { m \<leftarrow> encode_Message (SendRequest.Message r);
          Some (JObject ([(''recipient'', encode_Recipient (SendRequest.Recipient r)),
                          (''message'', m)] @
                         omitempty_string ''notification_type''
                           (SendRequest.NotificationType r))) }"

definition encode_Principal :: "Principal \<Rightarrow> json" where
  "encode_Principal p = JObject [(''id'', encode_string (Principal.Id p))]"

definition encode_CallbackAttachmentPayload :: "CallbackAttachmentPayload \<Rightarrow> json" where
  "encode_CallbackAttachmentPayload p =
     JObject [(''url'', encode_string (CallbackAttachmentPayload.Url p))]"

definition encode_CallbackAttachment :: "CallbackAttachment \<Rightarrow> json" where
  "encode_CallbackAttachment a =
     JObject [(''type'', encode_string (CallbackAttachment.Type a)),
              (''payload'', encode_CallbackAttachmentPayload (CallbackAttachment.Payload a))]"

definition encode_CallbackMessage :: "CallbackMessage \<Rightarrow> json" where
  "encode_CallbackMessage m =
     JObject [(''mid'', encode_string (CallbackMessage.MessageId m)),
              (''seq'', encode_int (CallbackMessage.Sequence m)),
              (''text'', encode_string (CallbackMessage.Text m)),
              (''attachments'',
                 encode_slice (encode_ptr encode_CallbackAttachment)
                   (CallbackMessage.Attachments m))]"

definition encode_Delivery :: "Delivery \<Rightarrow> json" where
  "encode_Delivery d =
     JObject [(''mids'', encode_slice encode_string (Delivery.MessageIds d)),
              (''watermark'', encode_int (Delivery.Watermark d)),
              (''seq'', encode_int (Delivery.Sequence d))]"

definition encode_Postback :: "Postback \<Rightarrow> json" where
  "encode_Postback p = JObject [(''payload'', encode_string (Postback.Payload p))]"

definition encode_OptIn :: "OptIn \<Rightarrow> json" where
  "encode_OptIn p = JObject [(''ref'', encode_string (OptIn.Ref p))]"

definition encode_MessagingEntry :: "MessagingEntry \<Rightarrow> json" where
  "encode_MessagingEntry e =
     JObject [(''sender'', encode_Principal (MessagingEntry.Sender e)),
              (''recipient'', encode_Principal (MessagingEntry.Recipient e)),
              (''timestamp'', encode_int (MessagingEntry.Timestamp e)),
              (''message'', encode_ptr encode_CallbackMessage (MessagingEntry.Message e)),
              (''delivery'', encode_ptr encode_Delivery (MessagingEntry.Delivery e)),
              (''postback'', encode_ptr encode_Postback (MessagingEntry.Postback e)),
              (''optin'', encode_ptr encode_OptIn (MessagingEntry.OptIn e))]"

definition encode_Entry :: "Entry \<Rightarrow> json" where
  "encode_Entry e =
     JObject [(''id'', encode_string (Entry.PageId e)),
              (''time'', encode_int (Entry.Time e)),
              (''messaging'',
                 encode_slice (encode_ptr encode_MessagingEntry) (Entry.Messaging e))]"

definition encode_Callback :: "Callback \<Rightarrow> json" where
  "encode_Callback c =
     JObject [(''object'', encode_string (Callback.Object c)),
              (''entry'', encode_slice (encode_ptr encode_Entry) (Callback.Entries c))]"

definition Marshal_Callback :: "Callback \<Rightarrow> json option" where
  "Marshal_Callback c = Some (encode_Callback c)"

subsection \<open>Decoding\<close>

text \<open>
  Decoding fills a zero value of the target type from a JSON value; \<open>None\<close> is the
  decoder's type error.
  \<^item> A member that is missing leaves its field at the zero value, and so does \<open>null\<close>;
    \<open>member\<close> therefore reads a missing member as \<open>null\<close>.
  \<^item> \<open>null\<close> decodes to the zero value of a string, a number or a struct, to the \<open>nil\<close>
    pointer and to the \<open>nil\<close> slice.
  \<^item> A number decodes into an \<open>int\<close> when it lies in the range of 64 bits.
  \<^item> Members that no field is tagged with are skipped.
  Member names are compared as they are written, and the first member of a name is the
  one read. The library also takes a name that differs from a tag in case only, and
  reads a repeated member again; the properties below therefore decode only objects
  whose members carry tagged names, each at most once: the objects the encoder writes,
  and those that \<open>is_wire_object\<close> accepts.
\<close>

definition member :: "string \<Rightarrow> (string \<times> json) list \<Rightarrow> json" where
  "member name ms = (case map_of ms name of None \<Rightarrow> JNull | Some v \<Rightarrow> v)"

fun decode_string :: "json \<Rightarrow> string option" where
  "decode_string (JString s) = Some s"
| "decode_string JNull = Some ''''"
| "decode_string _ = None"

fun decode_int :: "json \<Rightarrow> go_int option" where
  "decode_int (JNumber n) =
     (if - (2 ^ 63) \<le> n \<and> n < 2 ^ 63 then Some (word_of_int n) else None)"
| "decode_int JNull = Some 0"
| "decode_int _ = None"

definition decode_ptr :: "(json \<Rightarrow> 'a option) \<Rightarrow> json \<Rightarrow> 'a ptr option" where
  "decode_ptr dec j = (case j of JNull \<Rightarrow> Some None | _ \<Rightarrow> map_option Some (dec j))"

definition decode_slice :: "(json \<Rightarrow> 'a option) \<Rightarrow> json \<Rightarrow> 'a slice option" where
  "decode_slice dec j =
     (case j of
        JNull \<Rightarrow> Some None
      | JArray xs \<Rightarrow> map_option Some (those (map dec xs))
      | _ \<Rightarrow> None)"

definition decode_struct :: "'a \<Rightarrow> ((string \<times> json) list \<Rightarrow> 'a option) \<Rightarrow> json \<Rightarrow> 'a option" where
  "decode_struct zero dec j =
     (case j of JNull \<Rightarrow> Some zero | JObject ms \<Rightarrow> dec ms | _ \<Rightarrow> None)"



definition decode_Principal :: "json \<Rightarrow> Principal option" where
  "decode_Principal =
     decode_struct \<lparr>Principal.Id = ''''\<rparr>
       (\<lambda>ms. do {
          i \<leftarrow> decode_string (member ''id'' ms);
          Some \<lparr>Principal.Id = i\<rparr> })"

definition decode_CallbackAttachmentPayload :: "json \<Rightarrow> CallbackAttachmentPayload option" where
  "decode_CallbackAttachmentPayload =
     decode_struct \<lparr>CallbackAttachmentPayload.Url = ''''\<rparr>
       (\<lambda>ms. do {
          u \<leftarrow> decode_string (member ''url'' ms);
          Some \<lparr>CallbackAttachmentPayload.Url = u\<rparr> })"

definition decode_CallbackAttachment :: "json \<Rightarrow> CallbackAttachment option" where
  "decode_CallbackAttachment =
     decode_struct
       \<lparr>CallbackAttachment.Type = '''',
        CallbackAttachment.Payload = \<lparr>CallbackAttachmentPayload.Url = ''''\<rparr>\<rparr>
       (\<lambda>ms. do {
          t \<leftarrow> decode_string (member ''type'' ms);
          p \<leftarrow> decode_CallbackAttachmentPayload (member ''payload'' ms);
          Some \<lparr>CallbackAttachment.Type = t, CallbackAttachment.Payload = p\<rparr> })"

definition decode_CallbackMessage :: "json \<Rightarrow> CallbackMessage option" where
  "decode_CallbackMessage =
     decode_struct
       \<lparr>CallbackMessage.MessageId = '''', CallbackMessage.Sequence = 0,
        CallbackMessage.Text = '''', CallbackMessage.Attachments = None\<rparr>
       (\<lambda>ms. do {
          i \<leftarrow> decode_string (member ''mid'' ms);
          s \<leftarrow> decode_int (member ''seq'' ms);
          t \<leftarrow> decode_string (member ''text'' ms);
          a \<leftarrow> decode_slice (decode_ptr decode_CallbackAttachment) (member ''attachments'' ms);
          Some \<lparr>CallbackMessage.MessageId = i, CallbackMessage.Sequence = s,
                CallbackMessage.Text = t, CallbackMessage.Attachments = a\<rparr> })"

definition decode_Delivery :: "json \<Rightarrow> Delivery option" where
  "decode_Delivery =
     decode_struct
       \<lparr>Delivery.MessageIds = None, Delivery.Watermark = 0, Delivery.Sequence = 0\<rparr>
       (\<lambda>ms. do {
          i \<leftarrow> decode_slice decode_string (member ''mids'' ms);
          w \<leftarrow> decode_int (member ''watermark'' ms);
          s \<leftarrow> decode_int (member ''seq'' ms);
          Some \<lparr>Delivery.MessageIds = i, Delivery.Watermark = w, Delivery.Sequence = s\<rparr> })"

definition decode_Postback :: "json \<Rightarrow> Postback option" where
  "decode_Postback =
     decode_struct \<lparr>Postback.Payload = ''''\<rparr>
       (\<lambda>ms. do {
          p \<leftarrow> decode_string (member ''payload'' ms);
          Some \<lparr>Postback.Payload = p\<rparr> })"

definition decode_OptIn :: "json \<Rightarrow> OptIn option" where
  "decode_OptIn =
     decode_struct \<lparr>OptIn.Ref = ''''\<rparr>
       (\<lambda>ms. do {
          r \<leftarrow> decode_string (member ''ref'' ms);
          Some \<lparr>OptIn.Ref = r\<rparr> })"

definition decode_MessagingEntry :: "json \<Rightarrow> MessagingEntry option" where
  "decode_MessagingEntry =
     decode_struct
       \<lparr>MessagingEntry.Sender = \<lparr>Principal.Id = ''''\<rparr>,
        MessagingEntry.Recipient = \<lparr>Principal.Id = ''''\<rparr>,
        MessagingEntry.Timestamp = 0, MessagingEntry.Message = None,
        MessagingEntry.Delivery = None, MessagingEntry.Postback = None,
        MessagingEntry.OptIn = None\<rparr>
       (\<lambda>ms. do {
          s \<leftarrow> decode_Principal (member ''sender'' ms);
          r \<leftarrow> decode_Principal (member ''recipient'' ms);
          t \<leftarrow> decode_int (member ''timestamp'' ms);
          m \<leftarrow> decode_ptr decode_CallbackMessage (member ''message'' ms);
          d \<leftarrow> decode_ptr decode_Delivery (member ''delivery'' ms);
          p \<leftarrow> decode_ptr decode_Postback (member ''postback'' ms);
          oi \<leftarrow> decode_ptr decode_OptIn (member ''optin'' ms);
          Some \<lparr>MessagingEntry.Sender = s, MessagingEntry.Recipient = r,
                MessagingEntry.Timestamp = t, MessagingEntry.Message = m,
                MessagingEntry.Delivery = d, MessagingEntry.Postback = p,
                MessagingEntry.OptIn = oi\<rparr> })"

definition decode_Entry :: "json \<Rightarrow> Entry option" where
  "decode_Entry =
     decode_struct \<lparr>Entry.PageId = '''', Entry.Time = 0, Entry.Messaging = None\<rparr>
       (\<lambda>ms. do {
          i \<leftarrow> decode_string (member ''id'' ms);
          t \<leftarrow> decode_int (member ''time'' ms);
          m \<leftarrow> decode_slice (decode_ptr decode_MessagingEntry) (member ''messaging'' ms);
          Some \<lparr>Entry.PageId = i, Entry.Time = t, Entry.Messaging = m\<rparr> })"

definition Unmarshal_Callback :: "json \<Rightarrow> Callback option" where
  "Unmarshal_Callback =
     decode_struct \<lparr>Callback.Object = '''', Callback.Entries = None\<rparr>
       (\<lambda>ms. do {
          ob \<leftarrow> decode_string (member ''object'' ms);
          es \<leftarrow> decode_slice (decode_ptr decode_Entry) (member ''entry'' ms);
          Some \<lparr>Callback.Object = ob, Callback.Entries = es\<rparr> })"

subsection \<open>Well-formed wire objects\<close>



section \<open>Sample values\<close>

definition button0 :: Button where
  "button0 =
     \<lparr>Button.Type = ''web_url'', Button.Title = ''Open'', Button.Url = ''http://x'',
      Button.Payload = ''''\<rparr>"

definition button1 :: Button where
  "button1 =
     \<lparr>Button.Type = ''postback'', Button.Title = ''Buy'', Button.Url = '''',
      Button.Payload = ''BUY''\<rparr>"

definition request0 :: SendRequest where
  "request0 =
     \<lparr>SendRequest.Recipient = \<lparr>Recipient.Id = ''42'', Recipient.PhoneNumber = ''''\<rparr>,
      SendRequest.Message = \<lparr>Message.Text = ''hello'', Message.Attachment = None\<rparr>,
      SendRequest.NotificationType = ''NO_PUSH''\<rparr>"

definition message0 :: CallbackMessage where
  "message0 =
     \<lparr>CallbackMessage.MessageId = ''mid.1457764197618:41d102a3e1ae206a38'',
      CallbackMessage.Sequence = 73,
      CallbackMessage.Text = ''hello, world!'',
      CallbackMessage.Attachments = None\<rparr>"

definition messaging0 :: MessagingEntry where
  "messaging0 =
     \<lparr>MessagingEntry.Sender = \<lparr>Principal.Id = ''USER_ID''\<rparr>,
      MessagingEntry.Recipient = \<lparr>Principal.Id = ''PAGE_ID''\<rparr>,
      MessagingEntry.Timestamp = 1458692752478,
      MessagingEntry.Message = Some message0,
      MessagingEntry.Delivery = None,
      MessagingEntry.Postback = None,
      MessagingEntry.OptIn = None\<rparr>"

definition entry0 :: Entry where
  "entry0 =
     \<lparr>Entry.PageId = ''PAGE_ID'', Entry.Time = 1458692752478,
      Entry.Messaging = Some [Some messaging0]\<rparr>"

definition callback0 :: Callback where
  "callback0 = \<lparr>Callback.Object = ''page'', Callback.Entries = Some [Some entry0]\<rparr>"

definition message1 :: CallbackMessage where
  "message1 = message0\<lparr>CallbackMessage.Text := [CHR ''a'', CHR 0xFF, CHR ''b'']\<rparr>"

definition messaging1 :: MessagingEntry where
  "messaging1 = messaging0\<lparr>MessagingEntry.Message := Some message1\<rparr>"

definition entry1 :: Entry where
  "entry1 = entry0\<lparr>Entry.Messaging := Some [Some messaging1]\<rparr>"

definition callback1 :: Callback where
  "callback1 = callback0\<lparr>Callback.Entries := Some [Some entry1]\<rparr>"



section \<open>Properties of the constructors and the fluent methods\<close>

lemma assign_Some:
  "deref s sr = Some r \<Longrightarrow> assign sr f s = Some (sr, s[sr := f r])"
  by (simp add: assign_def)

lemma assign_result:
  assumes "deref s sr = Some r" and "P (f r)"
  shows "\<exists>r'. assign sr f s = Some (sr, s[sr := r']) \<and> P r'"
  using assms by (auto simp: assign_Some)

lemma assign_twice:
  "(assign sr f s \<bind> (\<lambda>(p, s'). assign p g s')) = assign sr (\<lambda>r. g (f r)) s"
  by (simp add: assign_def deref_def split: option.splits)

lemma deref_request0: "deref [request0] 0 = Some request0"
  by (simp add: deref_def)

text \<open>
  Claim C1, as amended. For every request \<open>r\<close> held at the address \<open>sr\<close> and every
  string \<open>userId\<close>, \<open>To\<close> returns its receiver \<open>sr\<close> and changes the store at \<open>sr\<close> only;
  afterwards the recipient's \<open>Id\<close> is \<open>userId\<close> and its \<open>PhoneNumber\<close> is empty.
  \<open>ToPhoneNumber\<close> is symmetric: \<open>PhoneNumber\<close> is the argument and \<open>Id\<close> is empty.
  After either call exactly one identifier is set when the argument is not empty, and
  none is set when it is empty.
\<close>

theorem recipient_setters:
  assumes "deref s sr = Some r"
  shows "(\<exists>r'. To sr userId s = Some (sr, s[sr := r']) \<and>
            Recipient.Id (SendRequest.Recipient r') = userId \<and>
            Recipient.PhoneNumber (SendRequest.Recipient r') = '''' \<and>
            identifiers_set (SendRequest.Recipient r') = (if userId = '''' then 0 else 1)) \<and>
         (\<exists>r'. ToPhoneNumber sr phoneNumber s = Some (sr, s[sr := r']) \<and>
            Recipient.PhoneNumber (SendRequest.Recipient r') = phoneNumber \<and>
            Recipient.Id (SendRequest.Recipient r') = '''' \<and>
            identifiers_set (SendRequest.Recipient r') = (if phoneNumber = '''' then 0 else 1))"
  unfolding To_def ToPhoneNumber_def
  by (intro conjI assign_result [OF assms]) (simp_all add: identifiers_set_def)

theorem recipient_setters_witness:
  "deref [request0] 0 = Some request0 \<and>
   (\<exists>r'. To 0 ''7'' [request0] = Some (0, [r']) \<and>
      Recipient.Id (SendRequest.Recipient r') = ''7'' \<and>
      Recipient.PhoneNumber (SendRequest.Recipient r') = '''' \<and>
      identifiers_set (SendRequest.Recipient r') = 1) \<and>
   (\<exists>r'. ToPhoneNumber 0 ''+1555'' [request0] = Some (0, [r']) \<and>
      Recipient.PhoneNumber (SendRequest.Recipient r') = ''+1555'' \<and>
      Recipient.Id (SendRequest.Recipient r') = '''' \<and>
      identifiers_set (SendRequest.Recipient r') = 1)"
  using deref_request0 recipient_setters [OF deref_request0, of "''7''" "''+1555''"]
  by simp

text \<open>
  Claim C1 as it is stated fails for the empty string: \<open>To\<close> called with \<open>''''\<close> on a
  request addressed by user id leaves a recipient with no identifier set, not one.
\<close>

theorem To_empty_id_counterexample:
  "To 0 '''' [request0] =
     Some (0, [request0\<lparr>SendRequest.Recipient :=
                          \<lparr>Recipient.Id = '''', Recipient.PhoneNumber = ''''\<rparr>\<rparr>]) \<and>
   identifiers_set \<lparr>Recipient.Id = '''', Recipient.PhoneNumber = ''''\<rparr> = 0"
  by (simp add: To_def assign_def deref_def identifiers_set_def)

text \<open>
  Claim C2. For every text and every slice of buttons, of any length,
  \<open>ButtonTemplateMessage\<close> allocates a new request whose message has an attachment of
  type \<open>template\<close>; the payload of the attachment is a \<open>ButtonPayload\<close> with the
  template type \<open>button\<close>, the given text and the given buttons in the given order.
\<close>

theorem ButtonTemplateMessage_buttons:
  "\<exists>r a p. ButtonTemplateMessage text buttons s = (length s, s @ [r]) \<and>
     Message.Attachment (SendRequest.Message r) = Some a \<and>
     Attachment.Type a = ''template'' \<and>
     Attachment.Payload a = ButtonPayloadValue p \<and>
     ButtonPayload.TemplateType p = ''button'' \<and>
     ButtonPayload.Text p = text \<and>
     ButtonPayload.Buttons p = buttons"
  by (simp add: ButtonTemplateMessage_def new_def)

theorem ButtonTemplateMessage_buttons_witness:
  "\<exists>r a p. ButtonTemplateMessage ''Pick'' (Some [Some button0, Some button1, None, Some button0]) []
       = (0, [r]) \<and>
     Message.Attachment (SendRequest.Message r) = Some a \<and>
     Attachment.Type a = ''template'' \<and>
     Attachment.Payload a = ButtonPayloadValue p \<and>
     ButtonPayload.TemplateType p = ''button'' \<and>
     ButtonPayload.Text p = ''Pick'' \<and>
     ButtonPayload.Buttons p = Some [Some button0, Some button1, None, Some button0]"
  using ButtonTemplateMessage_buttons
    [of "''Pick''" "Some [Some button0, Some button1, None, Some button0]" "[]"]
  by simp

text \<open>
  Claim C3. For every string \<open>t\<close>, \<open>TextMessage\<close> allocates a new request whose message
  has the text \<open>t\<close> and no attachment; the message has no other field.
\<close>

theorem TextMessage_text_only:
  "\<exists>r. TextMessage t s = (length s, s @ [r]) \<and>
     Message.Text (SendRequest.Message r) = t \<and>
     Message.Attachment (SendRequest.Message r) = None \<and>
     SendRequest.Message r = \<lparr>Message.Text = t, Message.Attachment = None\<rparr>"
  by (simp add: TextMessage_def new_def)

theorem TextMessage_text_only_witness:
  "\<exists>r. TextMessage ''hi'' [request0] = (1, [request0, r]) \<and>
     Message.Text (SendRequest.Message r) = ''hi'' \<and>
     Message.Attachment (SendRequest.Message r) = None"
  using TextMessage_text_only [of "''hi''" "[request0]"] by auto

text \<open>
  Claim C4. For every string \<open>u\<close>, \<open>ImageMessage\<close> allocates a new request whose message
  has an attachment of type \<open>image\<close> with a \<open>MediaPayload\<close> of url \<open>u\<close>, and whose text is
  empty, that is absent.
\<close>

theorem ImageMessage_image_attachment:
  "\<exists>r a. ImageMessage u s = (length s, s @ [r]) \<and>
     Message.Attachment (SendRequest.Message r) = Some a \<and>
     Attachment.Type a = ''image'' \<and>
     Attachment.Payload a = MediaPayloadValue \<lparr>MediaPayload.Url = u\<rparr> \<and>
     Message.Text (SendRequest.Message r) = ''''"
  by (simp add: ImageMessage_def new_def)

theorem ImageMessage_image_attachment_witness:
  "\<exists>r a. ImageMessage ''http://x/y.png'' [] = (0, [r]) \<and>
     Message.Attachment (SendRequest.Message r) = Some a \<and>
     Attachment.Type a = ''image'' \<and>
     Attachment.Payload a = MediaPayloadValue \<lparr>MediaPayload.Url = ''http://x/y.png''\<rparr> \<and>
     Message.Text (SendRequest.Message r) = ''''"
  using ImageMessage_image_attachment [of "''http://x/y.png''" "[]"] by simp

text \<open>
  Claim C5. For every request held at the address \<open>sr\<close>, each of \<open>Regular\<close>,
  \<open>SilentPush\<close> and \<open>NoPush\<close> returns its receiver \<open>sr\<close>, changes the store at \<open>sr\<close> only,
  and leaves the notification type \<open>REGULAR\<close>, \<open>SILENT_PUSH\<close> and \<open>NO_PUSH\<close>
  respectively.
\<close>

theorem priority_setters:
  assumes "deref s sr = Some r"
  shows "(\<exists>r'. Regular sr s = Some (sr, s[sr := r']) \<and>
            SendRequest.NotificationType r' = ''REGULAR'') \<and>
         (\<exists>r'. SilentPush sr s = Some (sr, s[sr := r']) \<and>
            SendRequest.NotificationType r' = ''SILENT_PUSH'') \<and>
         (\<exists>r'. NoPush sr s = Some (sr, s[sr := r']) \<and>
            SendRequest.NotificationType r' = ''NO_PUSH'')"
  unfolding Regular_def SilentPush_def NoPush_def
  by (intro conjI assign_result [OF assms]) simp_all

theorem priority_setters_witness:
  "deref [request0] 0 = Some request0 \<and>
   (\<exists>r'. Regular 0 [request0] = Some (0, [r']) \<and>
      SendRequest.NotificationType r' = ''REGULAR'') \<and>
   (\<exists>r'. SilentPush 0 [request0] = Some (0, [r']) \<and>
      SendRequest.NotificationType r' = ''SILENT_PUSH'') \<and>
   (\<exists>r'. NoPush 0 [request0] = Some (0, [r']) \<and>
      SendRequest.NotificationType r' = ''NO_PUSH'')"
  using deref_request0 priority_setters [OF deref_request0] by simp

text \<open>
  Claim C6. Calling the same notification-priority setter twice in a row gives the
  result of calling it once, and calling a different one afterwards gives the result of
  calling that one alone: the last write wins. The equations relate the returned
  pointer and the whole store, and hold as well when the receiver is \<open>nil\<close> (both sides
  panic).
\<close>

theorem priority_setters_idempotent_last_wins:
  "do { (p, s') \<leftarrow> Regular sr s; Regular p s' } = Regular sr s \<and>
   do { (p, s') \<leftarrow> SilentPush sr s; SilentPush p s' } = SilentPush sr s \<and>
   do { (p, s') \<leftarrow> NoPush sr s; NoPush p s' } = NoPush sr s \<and>
   do { (p, s') \<leftarrow> Regular sr s; SilentPush p s' } = SilentPush sr s \<and>
   do { (p, s') \<leftarrow> Regular sr s; NoPush p s' } = NoPush sr s \<and>
   do { (p, s') \<leftarrow> SilentPush sr s; Regular p s' } = Regular sr s \<and>
   do { (p, s') \<leftarrow> SilentPush sr s; NoPush p s' } = NoPush sr s \<and>
   do { (p, s') \<leftarrow> NoPush sr s; Regular p s' } = Regular sr s \<and>
   do { (p, s') \<leftarrow> NoPush sr s; SilentPush p s' } = SilentPush sr s"
  by (simp add: Regular_def SilentPush_def NoPush_def assign_twice)

theorem priority_setters_idempotent_last_wins_witness:
  "do { (p, s') \<leftarrow> SilentPush 0 [request0]; SilentPush p s' }
     = Some (0, [request0\<lparr>SendRequest.NotificationType := ''SILENT_PUSH''\<rparr>]) \<and>
   SilentPush 0 [request0]
     = Some (0, [request0\<lparr>SendRequest.NotificationType := ''SILENT_PUSH''\<rparr>]) \<and>
   do { (p, s') \<leftarrow> SilentPush 0 [request0]; Regular p s' }
     = Some (0, [request0\<lparr>SendRequest.NotificationType := ''REGULAR''\<rparr>]) \<and>
   Regular 0 [request0]
     = Some (0, [request0\<lparr>SendRequest.NotificationType := ''REGULAR''\<rparr>])"
proof -
  have "SilentPush 0 [request0]
          = Some (0, [request0\<lparr>SendRequest.NotificationType := ''SILENT_PUSH''\<rparr>])"
    and "Regular 0 [request0]
          = Some (0, [request0\<lparr>SendRequest.NotificationType := ''REGULAR''\<rparr>])"
    by (simp_all add: SilentPush_def Regular_def assign_def deref_def)
  then show ?thesis
    using priority_setters_idempotent_last_wins [of 0 "[request0]"] by simp
qed

text \<open>
  Claim C10. For every request \<open>r\<close> held at the address \<open>sr\<close>, each fluent method
  changes the store at \<open>sr\<close> only, and there only its own field: \<open>To\<close> and
  \<open>ToPhoneNumber\<close> leave \<open>Message\<close> and \<open>NotificationType\<close> as they were, and \<open>Regular\<close>,
  \<open>SilentPush\<close> and \<open>NoPush\<close> leave \<open>Recipient\<close> and \<open>Message\<close> as they were. No method
  changes \<open>Message\<close>.
\<close>

theorem mutators_frame:
  assumes "deref s sr = Some r"
  shows "(\<exists>r'. To sr userId s = Some (sr, s[sr := r']) \<and>
            SendRequest.Message r' = SendRequest.Message r \<and>
            SendRequest.NotificationType r' = SendRequest.NotificationType r) \<and>
         (\<exists>r'. ToPhoneNumber sr phoneNumber s = Some (sr, s[sr := r']) \<and>
            SendRequest.Message r' = SendRequest.Message r \<and>
            SendRequest.NotificationType r' = SendRequest.NotificationType r) \<and>
         (\<exists>r'. Regular sr s = Some (sr, s[sr := r']) \<and>
            SendRequest.Recipient r' = SendRequest.Recipient r \<and>
            SendRequest.Message r' = SendRequest.Message r) \<and>
         (\<exists>r'. SilentPush sr s = Some (sr, s[sr := r']) \<and>
            SendRequest.Recipient r' = SendRequest.Recipient r \<and>
            SendRequest.Message r' = SendRequest.Message r) \<and>
         (\<exists>r'. NoPush sr s = Some (sr, s[sr := r']) \<and>
            SendRequest.Recipient r' = SendRequest.Recipient r \<and>
            SendRequest.Message r' = SendRequest.Message r)"
  unfolding To_def ToPhoneNumber_def Regular_def SilentPush_def NoPush_def
  by (intro conjI assign_result [OF assms]) simp_all

theorem mutators_frame_witness:
  "deref [request0] 0 = Some request0 \<and>
   (\<exists>r'. To 0 ''7'' [request0] = Some (0, [r']) \<and>
      SendRequest.Message r' = \<lparr>Message.Text = ''hello'', Message.Attachment = None\<rparr> \<and>
      SendRequest.NotificationType r' = ''NO_PUSH'') \<and>
   (\<exists>r'. Regular 0 [request0] = Some (0, [r']) \<and>
      SendRequest.Recipient r' = \<lparr>Recipient.Id = ''42'', Recipient.PhoneNumber = ''''\<rparr> \<and>
      SendRequest.Message r' = \<lparr>Message.Text = ''hello'', Message.Attachment = None\<rparr>)"
  using deref_request0 mutators_frame [OF deref_request0, of "''7''"]
  by (simp add: request0_def)

section \<open>Properties of the wire encoding\<close>

subsection \<open>Strings and numbers\<close>

lemma ValidString_ToValidUTF8: "ValidString s \<Longrightarrow> ToValidUTF8 s = s"
proof (induction s rule: ValidString.induct)
  case 1
  then show ?case by simp
next
  case (2 c cs)
  let ?n = "rune_size (c # cs)"
  from "2.prems" have n: "?n \<noteq> 0" and v: "ValidString (drop ?n (c # cs))"
    by (simp_all split: if_splits)
  from "2.IH" [OF n v] have "ToValidUTF8 (drop ?n (c # cs)) = drop ?n (c # cs)" .
  with n have "ToValidUTF8 (c # cs) = take ?n (c # cs) @ drop ?n (c # cs)"
    by simp
  then show ?case
    by (simp only: append_take_drop_id)
qed

lemma decode_encode_string:
  "ValidString s \<Longrightarrow> decode_string (encode_string s) = Some s"
  by (simp add: encode_string_def ValidString_ToValidUTF8)

lemma decode_encode_int: "decode_int (encode_int n) = Some n"
proof -
  have "- (2 ^ 63) \<le> sint n" "sint n < 2 ^ 63"
    using sint_ge [of n] sint_lt [of n] by simp_all
  then show ?thesis
    by (simp add: encode_int_def)
qed



subsection \<open>Decoding what was encoded\<close>

lemma decode_encode_Principal:
  "ValidString (Principal.Id p) \<Longrightarrow> decode_Principal (encode_Principal p) = Some p"
  by (simp add: decode_Principal_def encode_Principal_def decode_struct_def member_def
      decode_encode_string)

lemma decode_encode_CallbackMessage:
  assumes "ValidString (CallbackMessage.MessageId cm)"
    and "ValidString (CallbackMessage.Text cm)"
    and "CallbackMessage.Attachments cm = None \<or> CallbackMessage.Attachments cm = Some []"
  shows "decode_CallbackMessage (encode_CallbackMessage cm) = Some cm"
proof -
  have "decode_slice (decode_ptr decode_CallbackAttachment)
          (encode_slice (encode_ptr encode_CallbackAttachment) (CallbackMessage.Attachments cm))
        = Some (CallbackMessage.Attachments cm)"
    using assms(3) by (auto simp: decode_slice_def encode_slice_def)
  then show ?thesis
    using assms(1,2)
    by (simp add: decode_CallbackMessage_def encode_CallbackMessage_def decode_struct_def
        member_def decode_encode_int decode_encode_string)
qed

lemma decode_ptr_encode_CallbackMessage:
  assumes "decode_CallbackMessage (encode_CallbackMessage cm) = Some cm"
  shows "decode_ptr decode_CallbackMessage (encode_CallbackMessage cm) = Some (Some cm)"
proof -
  have "decode_ptr decode_CallbackMessage (JObject ms)
          = map_option Some (decode_CallbackMessage (JObject ms))" for ms
    by (simp add: decode_ptr_def)
  with assms show ?thesis
    by (simp add: encode_CallbackMessage_def)
qed

lemma decode_encode_MessagingEntry:
  assumes "MessagingEntry.Message m = Some cm"
    and "decode_CallbackMessage (encode_CallbackMessage cm) = Some cm"
    and "MessagingEntry.Delivery m = None"
    and "MessagingEntry.Postback m = None"
    and "MessagingEntry.OptIn m = None"
    and "ValidString (Principal.Id (MessagingEntry.Sender m))"
    and "ValidString (Principal.Id (MessagingEntry.Recipient m))"
  shows "decode_MessagingEntry (encode_MessagingEntry m) = Some m"
proof -
  have nil: "decode_ptr dec (encode_ptr enc None) = Some None"
    for dec :: "json \<Rightarrow> 'a option" and enc
    by (simp add: decode_ptr_def encode_ptr_def)
  have msg: "decode_ptr decode_CallbackMessage (encode_ptr encode_CallbackMessage (Some cm))
               = Some (Some cm)"
    using decode_ptr_encode_CallbackMessage [OF assms(2)] by (simp add: encode_ptr_def)
  have "decode_MessagingEntry (encode_MessagingEntry m) =
          Some \<lparr>MessagingEntry.Sender = MessagingEntry.Sender m,
                MessagingEntry.Recipient = MessagingEntry.Recipient m,
                MessagingEntry.Timestamp = MessagingEntry.Timestamp m,
                MessagingEntry.Message = Some cm,
                MessagingEntry.Delivery = None,
                MessagingEntry.Postback = None,
                MessagingEntry.OptIn = None\<rparr>"
    by (simp add: decode_MessagingEntry_def encode_MessagingEntry_def decode_struct_def
        member_def decode_encode_int decode_encode_Principal [OF assms(6)]
        decode_encode_Principal [OF assms(7)] assms(1,3,4,5) msg nil)
  also have "\<dots> = Some m"
    using assms(1,3,4,5) by (cases m) simp
  finally show ?thesis .
qed

lemma decode_encode_Entry:
  assumes "Entry.Messaging e = Some [Some m]"
    and "decode_MessagingEntry (encode_MessagingEntry m) = Some m"
  shows "decode_Entry (encode_Entry e) =
           Some (e\<lparr>Entry.PageId := ToValidUTF8 (Entry.PageId e)\<rparr>)"
proof -
  have "decode_ptr decode_MessagingEntry (JObject ms)
          = map_option Some (decode_MessagingEntry (JObject ms))" for ms
    by (simp add: decode_ptr_def)
  with assms(2) have "decode_ptr decode_MessagingEntry (encode_MessagingEntry m) = Some (Some m)"
    by (simp add: encode_MessagingEntry_def)
  then have "decode_slice (decode_ptr decode_MessagingEntry)
               (encode_slice (encode_ptr encode_MessagingEntry) (Entry.Messaging e))
             = Some (Entry.Messaging e)"
    using assms(1) by (simp add: decode_slice_def encode_slice_def encode_ptr_def)
  then show ?thesis
    by (simp add: decode_Entry_def encode_Entry_def decode_struct_def member_def
        decode_encode_int encode_string_def)
qed

lemma Unmarshal_encode_Callback:
  assumes "Callback.Entries c = Some [Some e]"
    and "decode_Entry (encode_Entry e) = Some e'"
  shows "Unmarshal_Callback (encode_Callback c) =
           Some \<lparr>Callback.Object = ToValidUTF8 (Callback.Object c),
                 Callback.Entries = Some [Some e']\<rparr>"
proof -
  have "decode_ptr decode_Entry (JObject ms) = map_option Some (decode_Entry (JObject ms))"
    for ms
    by (simp add: decode_ptr_def)
  with assms(2) have "decode_ptr decode_Entry (encode_Entry e) = Some (Some e')"
    by (simp add: encode_Entry_def)
  then have "decode_slice (decode_ptr decode_Entry)
               (encode_slice (encode_ptr encode_Entry) (Callback.Entries c))
             = Some (Some [Some e'])"
    using assms(1) by (simp add: decode_slice_def encode_slice_def encode_ptr_def)
  then show ?thesis
    by (simp add: Unmarshal_Callback_def encode_Callback_def decode_struct_def member_def
        encode_string_def)
qed

text \<open>
  Claim C7, as amended. For every \<open>Callback\<close> that holds one \<open>Entry\<close> with one
  \<open>MessagingEntry\<close> whose message is a \<open>CallbackMessage\<close> without attachments (a \<open>nil\<close> or
  an empty slice), whose delivery, postback and opt-in are \<open>nil\<close>, and whose strings
  (the ids of sender and recipient, the message id and the text) are well-formed UTF-8:
  encoding the callback succeeds, and decoding the result gives a callback with one entry
  with one messaging entry, which equals the original one and in which delivery, postback
  and opt-in are \<open>nil\<close>.
\<close>

theorem Callback_roundtrip_text_message:
  assumes "Callback.Entries c = Some [Some e]"
    and "Entry.Messaging e = Some [Some m]"
    and "MessagingEntry.Message m = Some cm"
    and "CallbackMessage.Attachments cm = None \<or> CallbackMessage.Attachments cm = Some []"
    and "MessagingEntry.Delivery m = None"
    and "MessagingEntry.Postback m = None"
    and "MessagingEntry.OptIn m = None"
    and "ValidString (Principal.Id (MessagingEntry.Sender m))"
    and "ValidString (Principal.Id (MessagingEntry.Recipient m))"
    and "ValidString (CallbackMessage.MessageId cm)"
    and "ValidString (CallbackMessage.Text cm)"
  shows "\<exists>j c' e' m'. Marshal_Callback c = Some j \<and> Unmarshal_Callback j = Some c' \<and>
           Callback.Entries c' = Some [Some e'] \<and>
           Entry.Messaging e' = Some [Some m'] \<and>
           m' = m \<and>
           MessagingEntry.Message m' = Some cm \<and>
           MessagingEntry.Delivery m' = None \<and>
           MessagingEntry.Postback m' = None \<and>
           MessagingEntry.OptIn m' = None"
proof -
  let ?e = "e\<lparr>Entry.PageId := ToValidUTF8 (Entry.PageId e)\<rparr>"
  let ?c = "\<lparr>Callback.Object = ToValidUTF8 (Callback.Object c),
             Callback.Entries = Some [Some ?e]\<rparr>"
  have cm: "decode_CallbackMessage (encode_CallbackMessage cm) = Some cm"
    using assms(10,11,4) by (rule decode_encode_CallbackMessage)
  have m: "decode_MessagingEntry (encode_MessagingEntry m) = Some m"
    using assms(3) cm assms(5,6,7,8,9) by (rule decode_encode_MessagingEntry)
  have e: "decode_Entry (encode_Entry e) = Some ?e"
    using assms(2) m by (rule decode_encode_Entry)
  have "Unmarshal_Callback (encode_Callback c) = Some ?c"
    using assms(1) e by (rule Unmarshal_encode_Callback)
  moreover have "Marshal_Callback c = Some (encode_Callback c)"
    by (simp add: Marshal_Callback_def)
  moreover have "Entry.Messaging ?e = Some [Some m]"
    using assms(2) by simp
  ultimately show ?thesis
    using assms(3,5,6,7) by auto
qed

theorem Callback_roundtrip_text_message_witness:
  "ValidString (Principal.Id (MessagingEntry.Sender messaging0)) \<and>
   ValidString (Principal.Id (MessagingEntry.Recipient messaging0)) \<and>
   ValidString (CallbackMessage.MessageId message0) \<and>
   ValidString (CallbackMessage.Text message0) \<and>
   (\<exists>j c' e' m'. Marshal_Callback callback0 = Some j \<and> Unmarshal_Callback j = Some c' \<and>
      Callback.Entries c' = Some [Some e'] \<and>
      Entry.Messaging e' = Some [Some m'] \<and>
      m' = messaging0 \<and>
      MessagingEntry.Message m' = Some message0 \<and>
      MessagingEntry.Delivery m' = None \<and>
      MessagingEntry.Postback m' = None \<and>
      MessagingEntry.OptIn m' = None)"
proof -
  have v: "ValidString (Principal.Id (MessagingEntry.Sender messaging0))"
    "ValidString (Principal.Id (MessagingEntry.Recipient messaging0))"
    "ValidString (CallbackMessage.MessageId message0)"
    "ValidString (CallbackMessage.Text message0)"
    by (simp_all add: messaging0_def message0_def in_range_def)
  show ?thesis
    using v Callback_roundtrip_text_message [of callback0 entry0 messaging0 message0]
    by (simp add: callback0_def entry0_def messaging0_def message0_def)
qed

text \<open>
  Claim C7 as it is stated fails on a text that is not well-formed UTF-8. The callback
  \<open>callback1\<close> has the shape the claim asks for, and the text of its message is the three
  bytes \<open>61 FF 62\<close>. The encoder writes U+FFFD for the byte \<open>FF\<close>, so the decoded message
  carries the five bytes \<open>61 EF BF BD 62\<close> and the decoded messaging entry differs from
  the original one.
\<close>

theorem Callback_roundtrip_counterexample:
  "Callback.Entries callback1 = Some [Some entry1] \<and>
   Entry.Messaging entry1 = Some [Some messaging1] \<and>
   MessagingEntry.Message messaging1 = Some message1 \<and>
   CallbackMessage.Attachments message1 = None \<and>
   MessagingEntry.Delivery messaging1 = None \<and>
   MessagingEntry.Postback messaging1 = None \<and>
   MessagingEntry.OptIn messaging1 = None \<and>
   (Marshal_Callback callback1 \<bind> Unmarshal_Callback) =
     Some (callback0\<lparr>Callback.Entries := Some [Some (entry0\<lparr>Entry.Messaging := Some [Some
       (messaging0\<lparr>MessagingEntry.Message := Some
         (message0\<lparr>CallbackMessage.Text :=
            [CHR ''a'', CHR 0xEF, CHR 0xBF, CHR 0xBD, CHR ''b'']\<rparr>)\<rparr>)]\<rparr>)]\<rparr>) \<and>
   messaging0\<lparr>MessagingEntry.Message := Some
       (message0\<lparr>CallbackMessage.Text :=
          [CHR ''a'', CHR 0xEF, CHR 0xBF, CHR 0xBD, CHR ''b'']\<rparr>)\<rparr> \<noteq> messaging1"
  by (simp add: callback1_def entry1_def messaging1_def message1_def
      callback0_def entry0_def messaging0_def message0_def
      Marshal_Callback_def encode_Callback_def encode_Entry_def encode_MessagingEntry_def
      encode_CallbackMessage_def encode_Principal_def encode_string_def encode_int_def
      encode_slice_def encode_ptr_def
      Unmarshal_Callback_def decode_Entry_def decode_MessagingEntry_def
      decode_CallbackMessage_def decode_Principal_def decode_struct_def decode_slice_def
      decode_ptr_def member_def replacement_character_def in_range_def)

subsection \<open>No validation at encode time\<close>

text \<open>
  Claim C8, as amended. For every request whose recipient has neither identifier set,
  encoding performs no validation of the recipient: it fails only when the attachment
  carries a payload that has no JSON encoding, and whenever it succeeds the result is an
  object whose \<open>recipient\<close> member is the empty object.
\<close>

theorem Marshal_without_recipient:
  assumes "Recipient.Id (SendRequest.Recipient r) = ''''"
    and "Recipient.PhoneNumber (SendRequest.Recipient r) = ''''"
  shows "(Marshal_SendRequest r = None \<longleftrightarrow>
            (\<exists>a. Message.Attachment (SendRequest.Message r) = Some a \<and>
                 Attachment.Payload a = UnsupportedValue)) \<and>
         (\<forall>j. Marshal_SendRequest r = Some j \<longrightarrow>
            (\<exists>ms. j = JObject ms \<and> map_of ms ''recipient'' = Some (JObject [])))"
proof -
  have enc: "encode_Recipient (SendRequest.Recipient r) = JObject []"
    using assms by (simp add: encode_Recipient_def omitempty_string_def)
  have fails: "encode_payload p = None \<longleftrightarrow> p = UnsupportedValue" for p
    by (cases p) simp_all
  have "encode_Message (SendRequest.Message r) = None \<longleftrightarrow>
          (\<exists>a. Message.Attachment (SendRequest.Message r) = Some a \<and>
               Attachment.Payload a = UnsupportedValue)"
    by (auto simp: encode_Message_def encode_Attachment_def fails
        split: option.splits Option.bind_splits)
  then show ?thesis
    by (auto simp: Marshal_SendRequest_def enc split: Option.bind_splits)
qed

theorem Marshal_without_recipient_witness:
  "Marshal_SendRequest
     \<lparr>SendRequest.Recipient = \<lparr>Recipient.Id = '''', Recipient.PhoneNumber = ''''\<rparr>,
      SendRequest.Message = \<lparr>Message.Text = ''hi'', Message.Attachment = None\<rparr>,
      SendRequest.NotificationType = ''REGULAR''\<rparr> \<noteq> None \<and>
   (\<exists>j ms. Marshal_SendRequest
     \<lparr>SendRequest.Recipient = \<lparr>Recipient.Id = '''', Recipient.PhoneNumber = ''''\<rparr>,
      SendRequest.Message = \<lparr>Message.Text = ''hi'', Message.Attachment = None\<rparr>,
      SendRequest.NotificationType = ''REGULAR''\<rparr> = Some j \<and>
      j = JObject ms \<and> map_of ms ''recipient'' = Some (JObject []))"
  using Marshal_without_recipient
    [of "\<lparr>SendRequest.Recipient = \<lparr>Recipient.Id = '''', Recipient.PhoneNumber = ''''\<rparr>,
          SendRequest.Message = \<lparr>Message.Text = ''hi'', Message.Attachment = None\<rparr>,
          SendRequest.NotificationType = ''REGULAR''\<rparr>"]
  by (simp add: Marshal_SendRequest_def encode_Message_def omitempty_string_def
      encode_Recipient_def)

text \<open>
  Claim C8 as it is stated fails on the request that \<open>TextMessage\<close> builds and that no
  recipient setter was called on: its encoding succeeds, with an empty \<open>recipient\<close>
  object.
\<close>

theorem Marshal_no_recipient_counterexample:
  "TextMessage ''hi'' [] =
     (0, [\<lparr>SendRequest.Recipient = \<lparr>Recipient.Id = '''', Recipient.PhoneNumber = ''''\<rparr>,
           SendRequest.Message = \<lparr>Message.Text = ''hi'', Message.Attachment = None\<rparr>,
           SendRequest.NotificationType = ''''\<rparr>]) \<and>
   Marshal_SendRequest
     \<lparr>SendRequest.Recipient = \<lparr>Recipient.Id = '''', Recipient.PhoneNumber = ''''\<rparr>,
      SendRequest.Message = \<lparr>Message.Text = ''hi'', Message.Attachment = None\<rparr>,
      SendRequest.NotificationType = ''''\<rparr> =
     Some (JObject [(''recipient'', JObject []),
                    (''message'', JObject [(''text'', JString ''hi'')])])"
  by (simp add: TextMessage_def new_def Marshal_SendRequest_def encode_Message_def
      omitempty_string_def encode_Recipient_def encode_string_def in_range_def)

subsection \<open>Decoding a response that carries an error\<close>




end
